theory Spec2Isabelle
  imports Main "HOL-Library.Word"
begin

section \<open>JavaScript strings\<close>

text \<open>
  A JavaScript string is a sequence of UTF-16 code units; \<open>s.length\<close> counts code units
  and \<open>===\<close> on strings compares them unit by unit. String literals of \<open>App.js\<close> are
  written with \<open>ascii\<close> for their ASCII stretches and with the code unit itself for the
  Turkish letters (all of them in the Basic Multilingual Plane, one unit each).
\<close>

type_synonym code_unit = "16 word"
type_synonym jsstring = "code_unit list"

definition ascii :: "string \<Rightarrow> jsstring" where
  "ascii cs = map (\<lambda>c. word_of_nat (of_char c)) cs"

text \<open>
  \<open>String.prototype.trim\<close> removes leading and trailing WhiteSpace and LineTerminator
  code points (ECMAScript, 22.1.3.32): TAB, LF, VT, FF, CR, SP, NBSP, U+1680,
  U+2000..U+200A, U+2028, U+2029, U+202F, U+205F, U+3000 and U+FEFF.
\<close>

definition isWhiteSpace :: "code_unit \<Rightarrow> bool" where
  "isWhiteSpace c \<longleftrightarrow>
     c \<in> set [0x9, 0xA, 0xB, 0xC, 0xD, 0x20, 0xA0, 0x1680,
                0x2028, 0x2029, 0x202F, 0x205F, 0x3000, 0xFEFF]
     \<or> (0x2000 \<le> c \<and> c \<le> 0x200A)"

definition trim :: "jsstring \<Rightarrow> jsstring" where
  "trim s = rev (dropWhile isWhiteSpace (rev (dropWhile isWhiteSpace s)))"

text \<open>\<open>a || b\<close> on a possibly absent string: \<open>undefined\<close> and \<open>''\<close> are falsy.\<close>

fun js_or :: "jsstring option \<Rightarrow> jsstring \<Rightarrow> jsstring" where
  "js_or None b = b"
| "js_or (Some a) b = (if a = [] then b else a)"


section \<open>Data of the component\<close>

text \<open>An entry of \<open>translation.alternatives\<close> (read at lines 324-343).\<close>

record alternative =
  alt_translation :: jsstring
  alt_context :: jsstring
  alt_explanation :: jsstring

text \<open>
  The object held in \<open>translation\<close>: the body of a successful \<open>/api/translate\<close> reply
  or an element of \<open>history\<close>. The fields are those the component reads:
  \<open>item.id\<close>, \<open>item.text\<close>, \<open>item.from_lang\<close>, \<open>item.to_lang\<close>,
  \<open>main_translation\<close>, \<open>alternatives\<close>, \<open>item.timestamp\<close>.
\<close>

record translation_obj =
  item_id :: jsstring
  item_text :: jsstring
  from_lang :: jsstring
  to_lang :: jsstring
  main_translation :: jsstring
  alternatives :: "alternative list"
  timestamp :: jsstring

text \<open>
  The \<open>useState\<close> cells of \<open>App\<close> (lines 5-14); \<open>translation\<close> is \<open>null\<close> or an
  object, \<open>languages\<close> an object from code to display name.
\<close>

record app =
  sourceText :: jsstring
  translation :: "translation_obj option"
  fromLang :: jsstring
  toLang :: jsstring
  languages :: "(jsstring \<times> jsstring) list"
  loading :: bool
  history :: "translation_obj list"
  showHistory :: bool
  selectedAlternative :: jsstring
  error :: jsstring

definition app_init :: app where
  "app_init = \<lparr> sourceText = [], translation = None, fromLang = ascii ''tr'',
     toLang = ascii ''en'', languages = [], loading = False, history = [],
     showHistory = False, selectedAlternative = [], error = [] \<rparr>"

text \<open>The state setters returned by \<open>useState\<close> that the markup calls directly.\<close>

definition setSourceText :: "jsstring \<Rightarrow> app \<Rightarrow> app" where
  "setSourceText v s = s\<lparr>sourceText := v\<rparr>"

definition setFromLang :: "jsstring \<Rightarrow> app \<Rightarrow> app" where
  "setFromLang v s = s\<lparr>fromLang := v\<rparr>"

definition setToLang :: "jsstring \<Rightarrow> app \<Rightarrow> app" where
  "setToLang v s = s\<lparr>toLang := v\<rparr>"

definition setSelectedAlternative :: "jsstring \<Rightarrow> app \<Rightarrow> app" where
  "setSelectedAlternative v s = s\<lparr>selectedAlternative := v\<rparr>"

definition setShowHistory :: "bool \<Rightarrow> app \<Rightarrow> app" where
  "setShowHistory v s = s\<lparr>showHistory := v\<rparr>"


section \<open>Requests and replies\<close>

text \<open>
  Every \<open>fetch\<close> of the component is an effect: a handler returns the new state together
  with the requests it issued, in order. \<open>PostTranslate t f g\<close> is the POST to
  \<open>/api/translate\<close> with body \<open>{text: t, from_lang: f, to_lang: g}\<close>.
\<close>

datatype request =
    GetLanguages
  | GetHistory
  | PostTranslate jsstring jsstring jsstring
  | DeleteHistory

text \<open>
  \<open>await response.json()\<close> either yields the parsed body or rejects with an error
  whose \<open>message\<close> is carried by \<open>Threw\<close>.
\<close>

datatype 'a body = Threw jsstring | Parsed 'a

text \<open>The error payload of a reply that is not \<open>ok\<close>; \<open>detail\<close> may be absent.\<close>

record error_data =
  detail :: "jsstring option"

text \<open>
  What the awaited \<open>fetch\<close> of \<open>handleTranslate\<close> can come back with: the promise
  rejects (no connection, timeout) with an error message, or it resolves with
  \<open>response.ok\<close> false or true and a body.
\<close>

datatype translate_reply =
    FetchFailed jsstring
  | NotOk "error_data body"
  | Ok "translation_obj body"


section \<open>handleTranslate (lines 59-106)\<close>

definition msg_empty :: jsstring where
  "msg_empty = ascii ''L'' @ [0xFC] @ ascii ''tfen '' @ [0xE7] @ ascii ''evrilecek metni girin''"

definition msg_same_lang :: jsstring where
  "msg_same_lang = ascii ''Kaynak ve hedef dil ayn'' @ [0x131] @ ascii '' olamaz''"

definition msg_too_long :: jsstring where
  "msg_too_long = ascii ''Metin '' @ [0xE7] @ ascii ''ok uzun (maksimum 5000 karakter)''"

definition msg_failed :: jsstring where
  "msg_failed = [0xC7] @ ascii ''eviri ba'' @ [0x15F] @ ascii ''ar'' @ [0x131] @ ascii ''s''
                 @ [0x131] @ ascii ''z''"

text \<open>
  The synchronous part, up to the first \<open>await\<close>: the three guards, each of which sets
  \<open>error\<close> and returns, then the three setters and the \<open>fetch\<close>.
\<close>

definition handleTranslate_start :: "app \<Rightarrow> app \<times> request list" where
  "handleTranslate_start s =
     (if trim (sourceText s) = [] then (s\<lparr>error := msg_empty\<rparr>, [])
      else if fromLang s = toLang s then (s\<lparr>error := msg_same_lang\<rparr>, [])
      else if length (sourceText s) > 5000 then (s\<lparr>error := msg_too_long\<rparr>, [])
      else (s\<lparr>loading := True, error := [], translation := None\<rparr>,
            [PostTranslate (sourceText s) (fromLang s) (toLang s)]))"

text \<open>
  The body of the \<open>try\<close> after the \<open>fetch\<close> has settled: \<open>Inl m\<close> is an exception with
  message \<open>m\<close>, \<open>Inr d\<close> the parsed \<open>data\<close>.
\<close>

fun translate_try :: "translate_reply \<Rightarrow> jsstring + translation_obj" where
  "translate_try (FetchFailed m) = Inl m"
| "translate_try (NotOk (Threw m)) = Inl m"
| "translate_try (NotOk (Parsed errorData)) = Inl (js_or (detail errorData) msg_failed)"
| "translate_try (Ok (Threw m)) = Inl m"
| "translate_try (Ok (Parsed d)) = Inr d"

text \<open>
  The continuation: on \<open>data\<close> the two setters and \<open>fetchHistory()\<close>; in \<open>catch\<close>
  \<open>setError(error.message)\<close>; in \<open>finally\<close> \<open>setLoading(false)\<close>.
\<close>

definition handleTranslate_resolve :: "translate_reply \<Rightarrow> app \<Rightarrow> app \<times> request list" where
  "handleTranslate_resolve r s =
     (case translate_try r of
        Inr d \<Rightarrow>
          (s\<lparr>translation := Some d, selectedAlternative := main_translation d,
             loading := False\<rparr>, [GetHistory])
      | Inl m \<Rightarrow> (s\<lparr>error := m, loading := False\<rparr>, []))"


section \<open>The other handlers\<close>

text \<open>
  \<open>swapLanguages\<close> (lines 108-119). The setters of one handler read the values of the
  render the handler was created in, so the exchange is simultaneous.
\<close>

definition swapLanguages :: "app \<Rightarrow> app \<times> request list" where
  "swapLanguages s =
     (let s1 = s\<lparr>fromLang := toLang s, toLang := fromLang s\<rparr>
      in case translation s of
           Some t \<Rightarrow>
             (s1\<lparr>sourceText := selectedAlternative s, translation := None,
                 selectedAlternative := []\<rparr>, [])
         | None \<Rightarrow> (s1, []))"

text \<open>\<open>loadHistoryItem\<close> (lines 130-137): six setters, no \<open>fetch\<close>.\<close>

definition loadHistoryItem :: "translation_obj \<Rightarrow> app \<Rightarrow> app \<times> request list" where
  "loadHistoryItem item s =
     (s\<lparr>sourceText := item_text item, fromLang := from_lang item, toLang := to_lang item,
        translation := Some item, selectedAlternative := main_translation item,
        showHistory := False\<rparr>, [])"

text \<open>
  \<open>clearHistory\<close> (lines 121-128). The DELETE is awaited inside the \<open>try\<close>; the reply is
  not inspected (neither \<open>response.ok\<close> nor the body), so \<open>setHistory([])\<close> runs whenever
  the promise resolves and is skipped when it rejects (the error goes to the console).
\<close>

datatype delete_reply = DeleteFailed jsstring | DeleteResponded bool

definition clearHistory_start :: "app \<Rightarrow> app \<times> request list" where
  "clearHistory_start s = (s, [DeleteHistory])"

fun clearHistory_resolve :: "delete_reply \<Rightarrow> app \<Rightarrow> app \<times> request list" where
  "clearHistory_resolve (DeleteResponded ok) s = (s\<lparr>history := []\<rparr>, [])"
| "clearHistory_resolve (DeleteFailed m) s = (s, [])"

text \<open>
  \<open>fetchHistory\<close> (lines 49-57): \<open>data.translations || []\<close> on success, nothing but a
  console message on failure.
\<close>

record history_data =
  data_translations :: "translation_obj list option"

datatype history_reply = HistoryFailed jsstring | HistoryResponded "history_data body"

definition fetchHistory_start :: "app \<Rightarrow> app \<times> request list" where
  "fetchHistory_start s = (s, [GetHistory])"

fun fetchHistory_resolve :: "history_reply \<Rightarrow> app \<Rightarrow> app \<times> request list" where
  "fetchHistory_resolve (HistoryResponded (Parsed data)) s =
     (s\<lparr>history := (case data_translations data of Some ts \<Rightarrow> ts | None \<Rightarrow> [])\<rparr>, [])"
| "fetchHistory_resolve (HistoryResponded (Threw m)) s = (s, [])"
| "fetchHistory_resolve (HistoryFailed m) s = (s, [])"

text \<open>
  \<open>fetchLanguages\<close> (lines 38-47), run once on mount together with \<open>fetchHistory\<close>:
  \<open>data.languages\<close> on success, a fixed message in \<open>error\<close> on failure.
\<close>

record languages_data =
  data_languages :: "(jsstring \<times> jsstring) list"

datatype languages_reply = LanguagesFailed jsstring | LanguagesResponded "languages_data body"

definition msg_languages :: jsstring where
  "msg_languages = ascii ''Dil listesi y'' @ [0xFC] @ ascii ''klenirken hata olu'' @ [0x15F]
                    @ ascii ''tu''"

definition fetchLanguages_start :: "app \<Rightarrow> app \<times> request list" where
  "fetchLanguages_start s = (s, [GetLanguages])"

fun fetchLanguages_resolve :: "languages_reply \<Rightarrow> app \<Rightarrow> app \<times> request list" where
  "fetchLanguages_resolve (LanguagesResponded (Parsed data)) s =
     (s\<lparr>languages := data_languages data\<rparr>, [])"
| "fetchLanguages_resolve (LanguagesResponded (Threw m)) s = (s\<lparr>error := msg_languages\<rparr>, [])"
| "fetchLanguages_resolve (LanguagesFailed m) s = (s\<lparr>error := msg_languages\<rparr>, [])"


section \<open>What the user can trigger\<close>

text \<open>
  The translate button (lines 262-265) carries \<open>disabled={loading || !sourceText.trim()}\<close>:
  a click on a disabled button calls nothing.
\<close>

definition translate_button_disabled :: "app \<Rightarrow> bool" where
  "translate_button_disabled s \<longleftrightarrow> loading s \<or> trim (sourceText s) = []"

definition click_translate :: "app \<Rightarrow> app \<times> request list" where
  "click_translate s =
     (if translate_button_disabled s then (s, []) else handleTranslate_start s)"

text \<open>
  The document-wide \<open>keydown\<close> listener (lines 26-36). It is re-registered whenever
  \<open>sourceText\<close>, \<open>fromLang\<close> or \<open>toLang\<close> change, so the \<open>handleTranslate\<close> it calls
  reads their current values; these are the only cells \<open>handleTranslate\<close> reads.
\<close>

record key_event =
  ctrlKey :: bool
  metaKey :: bool
  key :: jsstring

definition handleKeyPress :: "key_event \<Rightarrow> app \<Rightarrow> app \<times> request list" where
  "handleKeyPress e s =
     (if (ctrlKey e \<or> metaKey e) \<and> key e = ascii ''Enter'' then handleTranslate_start s
      else (s, []))"

text \<open>
  The events the markup binds (lines 169-397), each with the condition under which its
  element is rendered or enabled. The alternative cards exist only while a translation
  with a non-empty \<open>alternatives\<close> is held (line 289), the clear button only while the
  history list is non-empty (line 375), the history entries only while the panel is
  open (line 386).
\<close>

datatype user_event =
    ChangeText jsstring
  | ChangeFrom jsstring
  | ChangeTo jsstring
  | ClickSwap
  | ClickTranslate
  | KeyDown key_event
  | ClickMain
  | ClickAlternative nat
  | ToggleHistory
  | ClickClear
  | ClickHistoryItem nat

fun on_event :: "user_event \<Rightarrow> app \<Rightarrow> app \<times> request list" where
  "on_event (ChangeText v) s = (setSourceText v s, [])"
| "on_event (ChangeFrom v) s = (setFromLang v s, [])"
| "on_event (ChangeTo v) s = (setToLang v s, [])"
| "on_event ClickSwap s = swapLanguages s"
| "on_event ClickTranslate s = click_translate s"
| "on_event (KeyDown e) s = handleKeyPress e s"
| "on_event ClickMain s =
     (case translation s of
        Some t \<Rightarrow>
          if alternatives t \<noteq> [] then (setSelectedAlternative (main_translation t) s, [])
          else (s, [])
      | None \<Rightarrow> (s, []))"
| "on_event (ClickAlternative i) s =
     (case translation s of
        Some t \<Rightarrow>
          if i < length (alternatives t)
          then (setSelectedAlternative (alt_translation (alternatives t ! i)) s, [])
          else (s, [])
      | None \<Rightarrow> (s, []))"
| "on_event ToggleHistory s = (setShowHistory (\<not> showHistory s) s, [])"
| "on_event ClickClear s = (if history s \<noteq> [] then clearHistory_start s else (s, []))"
| "on_event (ClickHistoryItem i) s =
     (if showHistory s \<and> i < length (history s) then loadHistoryItem (history s ! i) s
      else (s, []))"

text \<open>
  A run of user events during which no reply arrives: the final state and every request
  issued on the way, all of them still in flight.
\<close>

fun run_events :: "user_event list \<Rightarrow> app \<Rightarrow> app \<times> request list" where
  "run_events [] s = (s, [])"
| "run_events (e # es) s =
     (case on_event e s of
        (s1, rs) \<Rightarrow> (case run_events es s1 of (s2, rs') \<Rightarrow> (s2, rs @ rs')))"


section \<open>The phase of a session\<close>

text \<open>
  The component keeps no phase; it keeps \<open>loading\<close>, \<open>error\<close> and \<open>translation\<close>
  side by side. The phase of the specification is read off them the way the markup
  does: while \<open>loading\<close> the spinner replaces the output (line 243) and the button is
  disabled; otherwise a non-empty \<open>error\<close> is shown (line 282), whether or not a
  translation is still held; otherwise a held translation is the result.
\<close>

datatype phase = Idle | Loading | Result | Error

definition phase_of :: "app \<Rightarrow> phase" where
  "phase_of s =
     (if loading s then Loading
      else if error s \<noteq> [] then Error
      else if translation s \<noteq> None then Result
      else Idle)"


section \<open>A sample session\<close>

text \<open>
  The scenario of the specification: the text \<open>merhaba\<close>, Turkish to English, answered
  with \<open>hello\<close> and one alternative \<open>hi\<close>.
\<close>

definition hello_result :: translation_obj where
  "hello_result = \<lparr> item_id = ascii ''1'', item_text = ascii ''merhaba'',
     from_lang = ascii ''tr'', to_lang = ascii ''en'', main_translation = ascii ''hello'',
     alternatives = [\<lparr> alt_translation = ascii ''hi'', alt_context = ascii ''informal'',
                        alt_explanation = ascii ''casual greeting'' \<rparr>],
     timestamp = ascii ''2024-01-01T00:00:00'' \<rparr>"

definition ctrl_enter :: key_event where
  "ctrl_enter = \<lparr> ctrlKey = True, metaKey = False, key = ascii ''Enter'' \<rparr>"

text \<open>The text typed, and the session right after the button was clicked.\<close>

definition s_typed :: app where
  "s_typed = setSourceText (ascii ''merhaba'') app_init"

definition s_loading :: app where
  "s_loading = fst (click_translate s_typed)"

text \<open>The session after the reply \<open>hello\<close> has arrived.\<close>

definition s_hello :: app where
  "s_hello = fst (handleTranslate_resolve (Ok (Parsed hello_result)) s_loading)"

text \<open>
  With the result on screen the user sets the target language to the source language
  and clicks the button: the second guard sets \<open>error\<close>, the result stays.
\<close>

definition s_stale :: app where
  "s_stale = fst (click_translate (setToLang (ascii ''tr'') s_hello))"

text \<open>
  A reply of 5001 letters to the same request, and the session after the swap that made
  this reply the new source text.
\<close>

definition long_result :: translation_obj where
  "long_result = hello_result\<lparr>main_translation := replicate 5001 0x61\<rparr>"

definition s_long :: app where
  "s_long = fst (swapLanguages (fst (handleTranslate_resolve (Ok (Parsed long_result)) s_loading)))"

text \<open>A fresh session in which Ctrl+Enter was pressed on the empty text.\<close>

definition s_err :: app where
  "s_err = fst (handleKeyPress ctrl_enter app_init)"

text \<open>A session whose history list holds one record.\<close>

definition s_hist :: app where
  "s_hist = fst (fetchHistory_resolve
     (HistoryResponded (Parsed \<lparr> data_translations = Some [hello_result] \<rparr>)) app_init)"


section \<open>Auxiliary facts\<close>

text \<open>\<open>!sourceText.trim()\<close> holds exactly for the empty and the whitespace-only texts.\<close>

lemma trim_Nil_iff: "trim s = [] \<longleftrightarrow> list_all isWhiteSpace s"
proof (cases "dropWhile isWhiteSpace s")
  case Nil
  have "trim s = []" unfolding trim_def Nil by simp
  moreover have "list_all isWhiteSpace s" using Nil by (simp add: list_all_iff)
  ultimately show ?thesis by simp
next
  case (Cons x xs)
  then have "\<not> isWhiteSpace (hd (dropWhile isWhiteSpace s))"
    by (metis hd_dropWhile list.distinct(1))
  with Cons have nx: "\<not> isWhiteSpace x" by simp
  have "x \<in> set s" using Cons by (metis list.set_intros(1) set_dropWhileD)
  with nx have "\<not> list_all isWhiteSpace s" by (auto simp: list_all_iff)
  moreover have "trim s \<noteq> []" using Cons nx by (auto simp: trim_def)
  ultimately show ?thesis by simp
qed

lemma messages_nonempty:
  "msg_empty \<noteq> []" "msg_same_lang \<noteq> []" "msg_too_long \<noteq> []" "msg_failed \<noteq> []"
  by (simp_all add: msg_empty_def msg_same_lang_def msg_too_long_def msg_failed_def)

lemma handleTranslate_start_invalid:
  assumes "list_all isWhiteSpace (sourceText s) \<or> fromLang s = toLang s
           \<or> 5000 < length (sourceText s)"
  shows "handleTranslate_start s =
           (s\<lparr>error := (if list_all isWhiteSpace (sourceText s) then msg_empty
                         else if fromLang s = toLang s then msg_same_lang
                         else msg_too_long)\<rparr>, [])"
  using assms by (auto simp: handleTranslate_start_def trim_Nil_iff)

lemma handleTranslate_start_valid:
  assumes "\<not> list_all isWhiteSpace (sourceText s)" and "fromLang s \<noteq> toLang s"
    and "length (sourceText s) \<le> 5000"
  shows "handleTranslate_start s =
           (s\<lparr>loading := True, error := [], translation := None\<rparr>,
            [PostTranslate (sourceText s) (fromLang s) (toLang s)])"
  using assms by (simp add: handleTranslate_start_def trim_Nil_iff)

text \<open>The replies on which the \<open>try\<close> block of \<open>handleTranslate\<close> throws.\<close>

lemma translate_try_failure_cases:
  "translate_try r = Inl m \<longleftrightarrow>
     r = FetchFailed m \<or> r = NotOk (Threw m) \<or> r = Ok (Threw m)
     \<or> (\<exists>e. r = NotOk (Parsed e) \<and> m = js_or (detail e) msg_failed)"
  by (cases r rule: translate_try.cases) auto

lemma js_or_nonempty: "b \<noteq> [] \<Longrightarrow> js_or a b \<noteq> []"
  by (cases a) auto

text \<open>The button cannot start a second request; \<open>handleTranslate\<close> itself never reads
  \<open>loading\<close>.\<close>

lemma click_translate_while_loading: "loading s \<Longrightarrow> click_translate s = (s, [])"
  by (simp add: click_translate_def translate_button_disabled_def)

lemma handleKeyPress_while_loading:
  assumes "loading s" and "\<not> list_all isWhiteSpace (sourceText s)"
    and "fromLang s \<noteq> toLang s" and "length (sourceText s) \<le> 5000"
    and "ctrlKey e \<or> metaKey e" and "key e = ascii ''Enter''"
  shows "snd (handleKeyPress e s) = [PostTranslate (sourceText s) (fromLang s) (toLang s)]"
proof -
  have "handleKeyPress e s = handleTranslate_start s"
    using assms(5,6) by (simp add: handleKeyPress_def)
  then show ?thesis
    using assms(2-4) by (simp add: handleTranslate_start_valid)
qed

lemma handleTranslate_start_ignores_loading:
  "snd (handleTranslate_start (s\<lparr>loading := b\<rparr>)) = snd (handleTranslate_start s)"
  by (simp add: handleTranslate_start_def)

lemmas sample_defs =
  s_typed_def s_loading_def s_hello_def s_stale_def s_err_def s_hist_def s_long_def
  hello_result_def long_result_def ctrl_enter_def app_init_def swapLanguages_def
  setSourceText_def setFromLang_def setToLang_def setSelectedAlternative_def
  click_translate_def translate_button_disabled_def handleKeyPress_def
  handleTranslate_start_def handleTranslate_resolve_def
  trim_def isWhiteSpace_def ascii_def
  msg_empty_def msg_same_lang_def msg_too_long_def msg_failed_def


section \<open>Submitting\<close>

text \<open>
  C3. When the text is empty or whitespace-only, or longer than 5000 code units, or the
  two language codes are equal, \<open>handleTranslate\<close> issues no request and leaves one of
  its three validation messages (none of them empty) in \<open>error\<close>: the first guard that
  fires decides which.
\<close>

theorem submit_invalid_is_local:
  assumes "list_all isWhiteSpace (sourceText s) \<or> 5000 < length (sourceText s)
           \<or> fromLang s = toLang s"
  shows "snd (handleTranslate_start s) = []
       \<and> error (fst (handleTranslate_start s)) \<noteq> []
       \<and> error (fst (handleTranslate_start s)) =
           (if list_all isWhiteSpace (sourceText s) then msg_empty
            else if fromLang s = toLang s then msg_same_lang
            else msg_too_long)"
proof -
  have "list_all isWhiteSpace (sourceText s) \<or> fromLang s = toLang s
        \<or> 5000 < length (sourceText s)"
    using assms by blast
  then show ?thesis
    by (simp add: handleTranslate_start_invalid messages_nonempty)
qed

text \<open>
  The three ways to fail: a text of a space, an ideographic space and a line feed; a
  text of 5001 letters, swapped in from a translation; Turkish to Turkish.
\<close>

theorem submit_invalid_is_local_witness:
  "list_all isWhiteSpace (sourceText (setSourceText (ascii '' '' @ [0x3000, 0xA]) app_init))
   \<and> snd (handleTranslate_start (setSourceText (ascii '' '' @ [0x3000, 0xA]) app_init)) = []
   \<and> error (fst (handleTranslate_start (setSourceText (ascii '' '' @ [0x3000, 0xA]) app_init)))
       = msg_empty
   \<and> 5000 < length (sourceText s_long)
   \<and> snd (handleTranslate_start s_long) = []
   \<and> error (fst (handleTranslate_start s_long)) = msg_too_long
   \<and> fromLang (setToLang (ascii ''tr'') s_typed) = toLang (setToLang (ascii ''tr'') s_typed)
   \<and> snd (handleTranslate_start (setToLang (ascii ''tr'') s_typed)) = []
   \<and> error (fst (handleTranslate_start (setToLang (ascii ''tr'') s_typed))) = msg_same_lang"
proof -
  let ?a = "setSourceText (ascii '' '' @ [0x3000, 0xA]) app_init"
  let ?b = "s_long"
  let ?c = "setToLang (ascii ''tr'') s_typed"
  have a: "list_all isWhiteSpace (sourceText ?a)"
    by (simp add: sample_defs)
  have b: "5000 < length (sourceText ?b)" "\<not> list_all isWhiteSpace (sourceText ?b)"
    "fromLang ?b \<noteq> toLang ?b"
    by (simp_all add: sample_defs list_all_iff)
  have c: "fromLang ?c = toLang ?c" "\<not> list_all isWhiteSpace (sourceText ?c)"
    by (simp_all add: sample_defs)
  show ?thesis
    using a b c submit_invalid_is_local [of ?a] submit_invalid_is_local [of ?b]
      submit_invalid_is_local [of ?c]
    by simp
qed

text \<open>
  C10. A submit that fails validation changes \<open>error\<close> and nothing else: the state
  after it is the state before it with a new \<open>error\<close>, so the text, the language pair,
  a translation held from before, the selection and \<open>loading\<close> are as they were.
\<close>

theorem submit_invalid_changes_error_only:
  assumes "list_all isWhiteSpace (sourceText s) \<or> fromLang s = toLang s
           \<or> 5000 < length (sourceText s)"
  shows "fst (handleTranslate_start s) = s\<lparr>error := error (fst (handleTranslate_start s))\<rparr>
       \<and> sourceText (fst (handleTranslate_start s)) = sourceText s
       \<and> fromLang (fst (handleTranslate_start s)) = fromLang s
       \<and> toLang (fst (handleTranslate_start s)) = toLang s
       \<and> translation (fst (handleTranslate_start s)) = translation s
       \<and> selectedAlternative (fst (handleTranslate_start s)) = selectedAlternative s
       \<and> loading (fst (handleTranslate_start s)) = loading s
       \<and> error (fst (handleTranslate_start s)) \<in> {msg_empty, msg_same_lang, msg_too_long}"
  by (simp add: handleTranslate_start_invalid [OF assms])

text \<open>The result \<open>hello\<close> survives the click that found both languages set to \<open>tr\<close>.\<close>

theorem submit_invalid_changes_error_only_witness:
  "fromLang (setToLang (ascii ''tr'') s_hello) = toLang (setToLang (ascii ''tr'') s_hello)
   \<and> translation s_stale = Some hello_result
   \<and> selectedAlternative s_stale = ascii ''hello''
   \<and> sourceText s_stale = ascii ''merhaba''
   \<and> loading s_stale = False
   \<and> error s_stale = msg_same_lang"
proof -
  let ?s = "setToLang (ascii ''tr'') s_hello"
  have h: "fromLang ?s = toLang ?s" by (simp add: sample_defs)
  have e: "s_stale = fst (handleTranslate_start ?s)"
    by (simp add: sample_defs)
  have v: "translation ?s = Some hello_result" "selectedAlternative ?s = ascii ''hello''"
    "sourceText ?s = ascii ''merhaba''" "loading ?s = False"
    "error (fst (handleTranslate_start ?s)) = msg_same_lang"
    by (simp_all add: sample_defs)
  show ?thesis
    using h v submit_invalid_changes_error_only [of ?s] unfolding e by simp
qed

text \<open>
  C7. A submit that passes the guards issues exactly one request, and when the reply is
  \<open>ok\<close> with body \<open>d\<close> the session holds \<open>d\<close> with \<open>selectedAlternative\<close> equal to
  \<open>d.main_translation\<close>, in phase \<open>Result\<close>.
\<close>

theorem successful_submit_selects_main:
  assumes "\<not> list_all isWhiteSpace (sourceText s)" and "fromLang s \<noteq> toLang s"
    and "length (sourceText s) \<le> 5000"
  shows "snd (handleTranslate_start s) = [PostTranslate (sourceText s) (fromLang s) (toLang s)]
       \<and> translation (fst (handleTranslate_resolve (Ok (Parsed d)) (fst (handleTranslate_start s))))
           = Some d
       \<and> selectedAlternative
           (fst (handleTranslate_resolve (Ok (Parsed d)) (fst (handleTranslate_start s))))
           = main_translation d
       \<and> phase_of (fst (handleTranslate_resolve (Ok (Parsed d)) (fst (handleTranslate_start s))))
           = Result"
  using assms
  by (simp add: handleTranslate_start_valid handleTranslate_resolve_def phase_of_def)

text \<open>
  The scenario \<open>merhaba\<close>: the reply selects \<open>hello\<close>; choosing the alternative \<open>hi\<close>
  afterwards leaves the stored translation alone.
\<close>

theorem successful_submit_selects_main_witness:
  "\<not> list_all isWhiteSpace (sourceText s_typed) \<and> fromLang s_typed \<noteq> toLang s_typed
   \<and> length (sourceText s_typed) \<le> 5000
   \<and> s_hello = fst (handleTranslate_resolve (Ok (Parsed hello_result))
                      (fst (handleTranslate_start s_typed)))
   \<and> translation s_hello = Some hello_result
   \<and> selectedAlternative s_hello = ascii ''hello''
   \<and> phase_of s_hello = Result
   \<and> selectedAlternative (setSelectedAlternative (ascii ''hi'') s_hello) = ascii ''hi''
   \<and> translation (setSelectedAlternative (ascii ''hi'') s_hello) = Some hello_result"
proof -
  have h: "\<not> list_all isWhiteSpace (sourceText s_typed)" "fromLang s_typed \<noteq> toLang s_typed"
    "length (sourceText s_typed) \<le> 5000"
    by (simp_all add: sample_defs)
  have e: "s_hello = fst (handleTranslate_resolve (Ok (Parsed hello_result))
                      (fst (handleTranslate_start s_typed)))"
    by (simp add: sample_defs)
  have m: "main_translation hello_result = ascii ''hello''"
    by (simp add: hello_result_def)
  show ?thesis
    using h m successful_submit_selects_main [OF h, of hello_result]
    unfolding e [symmetric] by (simp add: setSelectedAlternative_def)
qed

text \<open>
  C1, as the code has it. A submit that passes the guards sets \<open>translation\<close> to
  \<open>null\<close> before the request leaves, and a failing reply does not bring it back: after
  the failure no translation is held, whatever was held before. What stays from the
  earlier result is \<open>selectedAlternative\<close>. \<open>error\<close> is the message of the exception:
  the \<open>detail\<close> of the error payload, the fallback when \<open>detail\<close> is absent or empty, or
  the message of the failed \<open>fetch\<close>; the phase is \<open>Error\<close> unless that message is empty.
\<close>

theorem remote_failure_leaves_no_result:
  assumes "\<not> list_all isWhiteSpace (sourceText s)" and "fromLang s \<noteq> toLang s"
    and "length (sourceText s) \<le> 5000"
    and "translate_try r = Inl m"
  shows "translation (fst (handleTranslate_resolve r (fst (handleTranslate_start s)))) = None
       \<and> selectedAlternative (fst (handleTranslate_resolve r (fst (handleTranslate_start s))))
           = selectedAlternative s
       \<and> loading (fst (handleTranslate_resolve r (fst (handleTranslate_start s)))) = False
       \<and> error (fst (handleTranslate_resolve r (fst (handleTranslate_start s)))) = m
       \<and> phase_of (fst (handleTranslate_resolve r (fst (handleTranslate_start s))))
           = (if m = [] then Idle else Error)
       \<and> translate_try (FetchFailed m') = Inl m'
       \<and> translate_try (NotOk (Parsed e))
           = Inl (case detail e of None \<Rightarrow> msg_failed
                  | Some d \<Rightarrow> if d = [] then msg_failed else d)"
  using assms
  by (simp add: handleTranslate_start_valid handleTranslate_resolve_def phase_of_def
      split: option.split)

text \<open>
  After \<open>hello\<close>, a second submit answered with an error payload without \<open>detail\<close>:
  the fallback message, phase \<open>Error\<close>, \<open>hello\<close> still selected, no translation held.
\<close>

theorem remote_failure_leaves_no_result_witness:
  "\<not> list_all isWhiteSpace (sourceText s_hello) \<and> fromLang s_hello \<noteq> toLang s_hello
   \<and> length (sourceText s_hello) \<le> 5000
   \<and> translation s_hello = Some hello_result
   \<and> translation (fst (handleTranslate_resolve (NotOk (Parsed \<lparr>detail = None\<rparr>))
                         (fst (handleTranslate_start s_hello)))) = None
   \<and> selectedAlternative (fst (handleTranslate_resolve (NotOk (Parsed \<lparr>detail = None\<rparr>))
                         (fst (handleTranslate_start s_hello)))) = ascii ''hello''
   \<and> error (fst (handleTranslate_resolve (NotOk (Parsed \<lparr>detail = None\<rparr>))
                         (fst (handleTranslate_start s_hello)))) = msg_failed
   \<and> phase_of (fst (handleTranslate_resolve (NotOk (Parsed \<lparr>detail = None\<rparr>))
                         (fst (handleTranslate_start s_hello)))) = Error"
proof -
  have h: "\<not> list_all isWhiteSpace (sourceText s_hello)" "fromLang s_hello \<noteq> toLang s_hello"
    "length (sourceText s_hello) \<le> 5000"
    by (simp_all add: sample_defs)
  have t: "translate_try (NotOk (Parsed \<lparr>detail = None\<rparr>)) = Inl msg_failed"
    by simp
  have v: "translation s_hello = Some hello_result"
    "selectedAlternative s_hello = ascii ''hello''" "msg_failed \<noteq> []"
    by (simp_all add: sample_defs)
  show ?thesis
    using h v remote_failure_leaves_no_result [OF h t] by simp
qed

text \<open>
  The statement that the last good translation is kept fails: the session holds
  \<open>hello\<close>, the next submit is sent, the \<open>fetch\<close> is rejected, and \<open>translation\<close> is
  \<open>null\<close>.
\<close>

theorem remote_failure_counterexample:
  "translation s_hello = Some hello_result
   \<and> snd (handleTranslate_start s_hello)
       = [PostTranslate (ascii ''merhaba'') (ascii ''tr'') (ascii ''en'')]
   \<and> translation (fst (handleTranslate_resolve (FetchFailed (ascii ''Failed to fetch''))
                         (fst (handleTranslate_start s_hello)))) = None"
  by (simp add: sample_defs)

text \<open>
  C2 does not hold of the code. With the first request in flight the button is disabled
  and a click does nothing, but Ctrl+Enter reaches \<open>handleTranslate\<close>, which does not
  look at \<open>loading\<close>: a second POST is issued while the session is still \<open>Loading\<close>.
\<close>

theorem keyboard_submit_while_loading:
  "click_translate s_typed
     = (s_loading, [PostTranslate (ascii ''merhaba'') (ascii ''tr'') (ascii ''en'')])
   \<and> phase_of s_loading = Loading
   \<and> click_translate s_loading = (s_loading, [])
   \<and> handleKeyPress ctrl_enter s_loading
     = (s_loading, [PostTranslate (ascii ''merhaba'') (ascii ''tr'') (ascii ''en'')])
   \<and> run_events [ClickTranslate, KeyDown ctrl_enter] s_typed
     = (s_loading, [PostTranslate (ascii ''merhaba'') (ascii ''tr'') (ascii ''en''),
                    PostTranslate (ascii ''merhaba'') (ascii ''tr'') (ascii ''en'')])"
proof -
  have first: "click_translate s_typed
     = (s_loading, [PostTranslate (ascii ''merhaba'') (ascii ''tr'') (ascii ''en'')])"
    by (simp add: sample_defs)
  have busy: "loading s_loading" "phase_of s_loading = Loading"
    by (simp_all add: sample_defs phase_of_def)
  have button: "click_translate s_loading = (s_loading, [])"
    using busy(1) by (rule click_translate_while_loading)
  have shortcut: "handleKeyPress ctrl_enter s_loading
     = (s_loading, [PostTranslate (ascii ''merhaba'') (ascii ''tr'') (ascii ''en'')])"
    by (simp add: sample_defs)
  from first busy button shortcut show ?thesis by simp
qed


section \<open>Selecting and editing\<close>

text \<open>
  C8. For any two strings \<open>x\<close> and \<open>y\<close>, selecting \<open>x\<close> and then \<open>y\<close> leaves \<open>y\<close>
  selected and the stored translation unchanged; the two calls together change the
  selection and nothing else.
\<close>

theorem select_then_select:
  "selectedAlternative (setSelectedAlternative y (setSelectedAlternative x s)) = y
   \<and> translation (setSelectedAlternative y (setSelectedAlternative x s)) = translation s
   \<and> setSelectedAlternative y (setSelectedAlternative x s) = s\<lparr>selectedAlternative := y\<rparr>"
  by (simp add: setSelectedAlternative_def)

text \<open>
  C9. Editing the text, the source language or the target language updates that one cell:
  in every state the phase, the error message and the stored translation stay as they are.
\<close>

theorem edits_touch_one_field:
  "setSourceText v s = s\<lparr>sourceText := v\<rparr>
   \<and> setFromLang v s = s\<lparr>fromLang := v\<rparr>
   \<and> setToLang v s = s\<lparr>toLang := v\<rparr>
   \<and> phase_of (setSourceText v s) = phase_of s
   \<and> phase_of (setFromLang v s) = phase_of s
   \<and> phase_of (setToLang v s) = phase_of s
   \<and> error (setSourceText v s) = error s
   \<and> error (setFromLang v s) = error s
   \<and> error (setToLang v s) = error s
   \<and> translation (setSourceText v s) = translation s
   \<and> translation (setFromLang v s) = translation s
   \<and> translation (setToLang v s) = translation s"
  by (simp add: setSourceText_def setFromLang_def setToLang_def phase_of_def)


section \<open>Swapping the languages\<close>

text \<open>
  C6, as the code has it. Two swaps in a row restore the language pair, and a swap issues
  no request. Without a translation a swap exchanges the pair and changes nothing else,
  so two swaps are the identity. With a translation the swap also moves the selection
  into the text and clears translation and selection, so two swaps are not the
  identity: no translation is held afterwards and the text is the former selection.
  \<open>loading\<close> and \<open>error\<close> are not touched: after a swap the phase is \<open>Idle\<close> when no
  request is in flight and no error message is shown (in particular when it was
  \<open>Result\<close>), and stays \<open>Loading\<close> or \<open>Error\<close> otherwise.
\<close>

theorem swapLanguages_twice:
  "fromLang (fst (swapLanguages (fst (swapLanguages s)))) = fromLang s
   \<and> toLang (fst (swapLanguages (fst (swapLanguages s)))) = toLang s
   \<and> snd (swapLanguages s) = []
   \<and> fst (swapLanguages s) =
       (case translation s of
          None \<Rightarrow> s\<lparr>fromLang := toLang s, toLang := fromLang s\<rparr>
        | Some t \<Rightarrow> s\<lparr>fromLang := toLang s, toLang := fromLang s,
                       sourceText := selectedAlternative s, translation := None,
                       selectedAlternative := []\<rparr>)
   \<and> phase_of (fst (swapLanguages s))
       = (if loading s then Loading else if error s \<noteq> [] then Error else Idle)
   \<and> translation (fst (swapLanguages (fst (swapLanguages s)))) = None
   \<and> sourceText (fst (swapLanguages (fst (swapLanguages s))))
       = (case translation s of None \<Rightarrow> sourceText s | Some t \<Rightarrow> selectedAlternative s)
   \<and> (fst (swapLanguages (fst (swapLanguages s))) = s) = (translation s = None)"
proof (cases "translation s")
  case None
  then show ?thesis by (simp add: swapLanguages_def phase_of_def)
next
  case (Some t)
  have once: "fst (swapLanguages s) =
      s\<lparr>fromLang := toLang s, toLang := fromLang s, sourceText := selectedAlternative s,
        translation := None, selectedAlternative := []\<rparr>"
    using Some by (simp add: swapLanguages_def)
  have twice: "translation (fst (swapLanguages (fst (swapLanguages s)))) = None"
    unfolding once by (simp add: swapLanguages_def)
  then have "fst (swapLanguages (fst (swapLanguages s))) \<noteq> s"
    using Some by auto
  with Some once twice show ?thesis
    by (simp add: swapLanguages_def phase_of_def)
qed

text \<open>
  From the result \<open>hello\<close> (phase \<open>Result\<close>): the pair becomes English to Turkish, the
  text \<open>hello\<close>, the phase \<open>Idle\<close>; the second swap restores the pair only.
\<close>

theorem swapLanguages_twice_witness:
  "phase_of s_hello = Result
   \<and> fromLang (fst (swapLanguages s_hello)) = ascii ''en''
   \<and> toLang (fst (swapLanguages s_hello)) = ascii ''tr''
   \<and> sourceText (fst (swapLanguages s_hello)) = ascii ''hello''
   \<and> translation (fst (swapLanguages s_hello)) = None
   \<and> phase_of (fst (swapLanguages s_hello)) = Idle
   \<and> fromLang (fst (swapLanguages (fst (swapLanguages s_hello)))) = ascii ''tr''
   \<and> toLang (fst (swapLanguages (fst (swapLanguages s_hello)))) = ascii ''en''
   \<and> sourceText (fst (swapLanguages (fst (swapLanguages s_hello)))) = ascii ''hello''
   \<and> fst (swapLanguages (fst (swapLanguages s_hello))) \<noteq> s_hello"
proof -
  have v: "translation s_hello = Some hello_result" "loading s_hello = False"
    "error s_hello = []" "selectedAlternative s_hello = ascii ''hello''"
    "fromLang s_hello = ascii ''tr''" "toLang s_hello = ascii ''en''"
    by (simp_all add: sample_defs)
  have p: "phase_of s_hello = Result"
    using v by (simp add: phase_of_def)
  note t = swapLanguages_twice [of s_hello, unfolded v, simplified]
  from t have once: "fst (swapLanguages s_hello) =
      s_hello\<lparr>fromLang := ascii ''en'', toLang := ascii ''tr'',
        sourceText := ascii ''hello'', translation := None, selectedAlternative := []\<rparr>"
    by blast
  have fields: "fromLang (fst (swapLanguages s_hello)) = ascii ''en''"
    "toLang (fst (swapLanguages s_hello)) = ascii ''tr''"
    "sourceText (fst (swapLanguages s_hello)) = ascii ''hello''"
    "translation (fst (swapLanguages s_hello)) = None"
    unfolding once by simp_all
  from t have rest: "phase_of (fst (swapLanguages s_hello)) = Idle"
    "fromLang (fst (swapLanguages (fst (swapLanguages s_hello)))) = ascii ''tr''"
    "toLang (fst (swapLanguages (fst (swapLanguages s_hello)))) = ascii ''en''"
    "sourceText (fst (swapLanguages (fst (swapLanguages s_hello)))) = ascii ''hello''"
    "fst (swapLanguages (fst (swapLanguages s_hello))) \<noteq> s_hello"
    by blast+
  from p fields rest show ?thesis by blast
qed

text \<open>
  The statement that a swap with a translation held returns the phase to \<open>Idle\<close> fails:
  the session that holds \<open>hello\<close> and the message of the second guard still shows that
  message after the swap.
\<close>

theorem swapLanguages_counterexample:
  "translation s_stale = Some hello_result
   \<and> error s_stale = msg_same_lang
   \<and> translation (fst (swapLanguages s_stale)) = None
   \<and> error (fst (swapLanguages s_stale)) = msg_same_lang
   \<and> phase_of (fst (swapLanguages s_stale)) = Error"
  by (simp add: sample_defs swapLanguages_def phase_of_def)


section \<open>History\<close>

text \<open>
  C5, as the code has it. Loading a history record issues no request and takes the
  text, the language pair and the translation from the record, with
  \<open>selectedAlternative\<close> set to the record's \<open>main_translation\<close>. \<open>loading\<close> and
  \<open>error\<close> are not touched: the phase is \<open>Result\<close> when no request is in flight and no
  error message is shown, and stays \<open>Loading\<close> or \<open>Error\<close> otherwise.
\<close>

theorem loadHistoryItem_rehydrates:
  "snd (loadHistoryItem item s) = []
   \<and> sourceText (fst (loadHistoryItem item s)) = item_text item
   \<and> fromLang (fst (loadHistoryItem item s)) = from_lang item
   \<and> toLang (fst (loadHistoryItem item s)) = to_lang item
   \<and> translation (fst (loadHistoryItem item s)) = Some item
   \<and> selectedAlternative (fst (loadHistoryItem item s)) = main_translation item
   \<and> loading (fst (loadHistoryItem item s)) = loading s
   \<and> error (fst (loadHistoryItem item s)) = error s
   \<and> phase_of (fst (loadHistoryItem item s))
       = (if loading s then Loading else if error s \<noteq> [] then Error else Result)"
  by (simp add: loadHistoryItem_def phase_of_def)

text \<open>Loaded into a fresh session, the record \<open>hello\<close> is the result.\<close>

theorem loadHistoryItem_rehydrates_witness:
  "snd (loadHistoryItem hello_result app_init) = []
   \<and> sourceText (fst (loadHistoryItem hello_result app_init)) = ascii ''merhaba''
   \<and> translation (fst (loadHistoryItem hello_result app_init)) = Some hello_result
   \<and> selectedAlternative (fst (loadHistoryItem hello_result app_init)) = ascii ''hello''
   \<and> phase_of (fst (loadHistoryItem hello_result app_init)) = Result"
proof -
  have v: "loading app_init = False" "error app_init = []"
    "item_text hello_result = ascii ''merhaba''"
    "main_translation hello_result = ascii ''hello''"
    by (simp_all add: app_init_def hello_result_def)
  show ?thesis
    using v loadHistoryItem_rehydrates [of hello_result app_init] by simp
qed

text \<open>
  The statement that the phase is \<open>Result\<close> after every load fails: loaded while the
  message of the first guard is shown, the record leaves the message in place; loaded
  while a request is in flight, it leaves the session \<open>Loading\<close>.
\<close>

theorem loadHistoryItem_counterexample:
  "error s_err = msg_empty
   \<and> error (fst (loadHistoryItem hello_result s_err)) = msg_empty
   \<and> phase_of (fst (loadHistoryItem hello_result s_err)) = Error
   \<and> loading (fst (loadHistoryItem hello_result s_loading)) = True
   \<and> phase_of (fst (loadHistoryItem hello_result s_loading)) = Loading"
  by (simp add: sample_defs loadHistoryItem_def phase_of_def)

text \<open>
  C4, as the code has it. Starting the clear sends the DELETE and leaves the local list
  alone. The list is emptied when the call resolves, whatever the status of the reply,
  and is left as it is when the call is rejected.
\<close>

theorem clearHistory_after_reply:
  "clearHistory_start s = (s, [DeleteHistory])
   \<and> fst (clearHistory_resolve (DeleteResponded ok) (fst (clearHistory_start s)))
       = s\<lparr>history := []\<rparr>
   \<and> fst (clearHistory_resolve (DeleteFailed m) (fst (clearHistory_start s))) = s
   \<and> snd (clearHistory_resolve reply s) = []"
  by (cases reply) (simp_all add: clearHistory_start_def)

text \<open>
  The statement that the list is emptied whatever the outcome fails: with one record in
  the list and the DELETE rejected, the record is still there.
\<close>

theorem clearHistory_counterexample:
  "history s_hist = [hello_result]
   \<and> clearHistory_start s_hist = (s_hist, [DeleteHistory])
   \<and> history (fst (clearHistory_resolve (DeleteFailed (ascii ''Failed to fetch''))
                     (fst (clearHistory_start s_hist)))) = [hello_result]"
  by (simp add: s_hist_def clearHistory_start_def)

end
